theory Spec2Isabelle
  imports Complex_Main
begin

section \<open>Data model of \<^verbatim>\<open>delivery_multi_destination/models/delivery_carrier.py\<close>\<close>

text \<open>
  The module extends the host platform's \<^verbatim>\<open>delivery.carrier\<close> model. Records live in
  database tables and are addressed by their id; a recordset is an ordered sequence of
  ids. The embedding keeps that shape: a table maps an id to the row of fields the code
  reads or writes, and a recordset is a list of ids.

  \<^item> \<^verbatim>\<open>destination_type\<close> is a selection over \<^verbatim>\<open>"one"\<close> and \<^verbatim>\<open>"multi"\<close>; like every
    selection of the platform it can also be unset (\<^verbatim>\<open>False\<close>), which is \<open>None\<close> here.
  \<^item> \<^verbatim>\<open>delivery_type\<close> is a selection that other modules extend, so it stays a string.
  \<^item> \<^verbatim>\<open>fixed_price\<close> is a float of the host; the code only copies it.
  \<^item> a many-to-one reference (\<^verbatim>\<open>parent_id\<close>, \<^verbatim>\<open>company_id\<close>, \<^verbatim>\<open>carrier_id\<close>,
    \<^verbatim>\<open>partner_id\<close>) is an optional id, \<open>None\<close> for the empty reference.
\<close>

datatype destination = Dest_one | Dest_multi

record carrier =
  delivery_type :: string
  destination_type :: "destination option"
  company_id :: "nat option"
  fixed_price :: real
  parent_id :: "nat option"
  child_ids :: "nat list"

section \<open>The derived field \<^verbatim>\<open>destination_type\<close>\<close>

text \<open>
  \<^verbatim>\<open>_compute_destination_type\<close> and \<^verbatim>\<open>_inverse_destination_type\<close> loop over the records
  of \<^verbatim>\<open>self\<close> and treat each one on its own; the functions below are the loop bodies
  (a leading underscore is not an Isabelle identifier, so it is dropped).
\<close>

definition compute_destination_type :: "carrier \<Rightarrow> carrier" where
  "compute_destination_type carrier =
     (if delivery_type carrier = ''base_on_destination''
      then carrier\<lparr>destination_type := Some Dest_multi\<rparr>
      else carrier\<lparr>destination_type := Some Dest_one\<rparr>)"

definition inverse_destination_type :: "carrier \<Rightarrow> carrier" where
  "inverse_destination_type carrier =
     (if destination_type carrier = Some Dest_multi
      then carrier\<lparr>delivery_type := ''base_on_destination''\<rparr>
      else if delivery_type carrier = ''base_on_destination''
      then carrier\<lparr>delivery_type := ''fixed''\<rparr>
      else carrier)"

text \<open>
  The field declaration wires the two methods to writes: \<^verbatim>\<open>destination_type\<close> is
  declared with \<^verbatim>\<open>compute="_compute_destination_type"\<close>, which
  \<^verbatim>\<open>@api.depends("delivery_type")\<close> triggers on a change of \<^verbatim>\<open>delivery_type\<close>, and with
  \<^verbatim>\<open>inverse="_inverse_destination_type"\<close>, which runs when \<^verbatim>\<open>destination_type\<close> itself is
  written. A write assigns the field and then runs the method wired to it. When the
  inverse changes \<^verbatim>\<open>delivery_type\<close>, the host may or may not recompute the field being
  written in the same write; \<open>recompute\<close> covers both behaviours.
\<close>

datatype write_op =
    Write_delivery_type string
  | Write_destination_type "destination option"

fun write_field :: "bool \<Rightarrow> write_op \<Rightarrow> carrier \<Rightarrow> carrier" where
  "write_field recompute (Write_delivery_type v) carrier =
     compute_destination_type (carrier\<lparr>delivery_type := v\<rparr>)"
| "write_field recompute (Write_destination_type d) carrier =
     (let carrier' = inverse_destination_type (carrier\<lparr>destination_type := d\<rparr>)
      in if recompute \<and> delivery_type carrier' \<noteq> delivery_type carrier
         then compute_destination_type carrier' else carrier')"

fun write_fields :: "bool \<Rightarrow> write_op list \<Rightarrow> carrier \<Rightarrow> carrier" where
  "write_fields recompute [] carrier = carrier"
| "write_fields recompute (wop # ops) carrier = write_fields recompute ops (write_field recompute wop carrier)"

definition destination_invariant :: "carrier \<Rightarrow> bool" where
  "destination_invariant carrier =
     ((destination_type carrier = Some Dest_multi) = (delivery_type carrier = ''base_on_destination''))"

section \<open>Python values, the call context and search domains\<close>

text \<open>
  The call context is a dictionary; \<^verbatim>\<open>context.get(key)\<close> gives \<^verbatim>\<open>None\<close> for a missing key
  and the code only tests the truth value of what it gets.
\<close>

datatype pyval = PyNone | PyBool bool | PyInt int | PyStr string




text \<open>
  A search domain is a list whose items are condition triples
  \<^verbatim>\<open>(field, operator, value)\<close> or prefix operator strings.
\<close>

datatype domain_term = Leaf string string pyval | Operator string


section \<open>Listing filter: \<^verbatim>\<open>search\<close> and \<^verbatim>\<open>name_search\<close>\<close>



section \<open>The database seen by the routing methods\<close>

text \<open>
  A picking carries the three fields \<^verbatim>\<open>send_shipping\<close> touches (\<^verbatim>\<open>company_id\<close> of a
  picking is \<open>picking_company_id\<close>, the name \<open>company_id\<close> being the carrier's field), a sale
  order the one field \<^verbatim>\<open>rate_shipment\<close> reads. The world holds the tables and, in \<open>host\<close>,
  whatever else the host platform keeps; host code may read and change all of it.
\<close>

record picking =
  carrier_id :: "nat option"
  picking_company_id :: "nat option"
  partner_id :: "nat option"

record sale_order =
  partner_shipping_id :: "nat option"

record 'h world =
  carriers :: "nat \<Rightarrow> carrier"
  pickings :: "nat \<Rightarrow> picking"
  orders :: "nat \<Rightarrow> sale_order"
  host :: 'h

text \<open>
  Exceptions are values. \<^verbatim>\<open>except Exception\<close> catches the instances of \<^verbatim>\<open>Exception\<close>,
  which \<^verbatim>\<open>ValidationError\<close> and \<^verbatim>\<open>ValueError\<close> are; \<open>NonException\<close> stands for what
  derives from \<^verbatim>\<open>BaseException\<close> only (\<^verbatim>\<open>KeyboardInterrupt\<close>, \<^verbatim>\<open>SystemExit\<close>).
\<close>

datatype exn =
    ValidationError string
  | ValueError string
  | OtherException string
  | NonException string

fun isinstance_Exception :: "exn \<Rightarrow> bool" where
  "isinstance_Exception (NonException s) = False"
| "isinstance_Exception e = True"

text \<open>
  One entry of a booking result: the dictionary with the keys \<^verbatim>\<open>exact_price\<close> and
  \<^verbatim>\<open>tracking_number\<close>; the platform's \<^verbatim>\<open>False\<close> for "no tracking number" is \<open>None\<close>.
\<close>

record ship_result =
  exact_price :: real
  tracking_number :: "string option"

text \<open>
  Host code used by the routing methods, all of it parameters of the model:
  \<^item> \<open>match_address w c partner\<close>: \<^verbatim>\<open>c._match_address(partner)\<close>;
  \<^item> \<open>super_available_carriers w cs partner\<close>: the inherited \<^verbatim>\<open>available_carriers\<close> on the
    recordset \<open>cs\<close>, giving a recordset;
  \<^item> \<open>super_rate_shipment w cs order\<close>: the inherited \<^verbatim>\<open>rate_shipment\<close>, which returns a
    rate or raises;
  \<^item> \<open>super_send_shipping cs ps w\<close>: the inherited \<^verbatim>\<open>send_shipping\<close>, which returns a list
    of results or raises, and leaves a changed world either way.
\<close>

type_synonym 'h matcher = "'h world \<Rightarrow> nat \<Rightarrow> nat option \<Rightarrow> bool"

type_synonym 'h booking =
  "nat list \<Rightarrow> nat list \<Rightarrow> 'h world \<Rightarrow> (exn + ship_result list) \<times> 'h world"

section \<open>Availability check: \<^verbatim>\<open>available_carriers\<close>\<close>

text \<open>
  \<^verbatim>\<open>available |= carrier\<close> is the union of recordsets: the ids of the left operand, then
  those of the right one that are new.
\<close>

fun recordset_union :: "nat list \<Rightarrow> nat list \<Rightarrow> nat list" where
  "recordset_union xs [] = xs"
| "recordset_union xs (y # ys) = recordset_union (if y \<in> set xs then xs else xs @ [y]) ys"

fun available_carriers_loop ::
  "('h world \<Rightarrow> nat list \<Rightarrow> nat option \<Rightarrow> nat list) \<Rightarrow> 'h world \<Rightarrow> nat option \<Rightarrow>
   nat list \<Rightarrow> nat list \<Rightarrow> nat list" where
  "available_carriers_loop super_available_carriers w partner [] available = available"
| "available_carriers_loop super_available_carriers w partner (carrier # rest) available =
     (let candidates =
            (if destination_type (carriers w carrier) = Some Dest_one then [carrier]
             else child_ids (carriers w carrier))
      in if super_available_carriers w candidates partner \<noteq> []
         then available_carriers_loop super_available_carriers w partner rest
                (recordset_union available [carrier])
         else available_carriers_loop super_available_carriers w partner rest available)"

definition available_carriers ::
  "('h world \<Rightarrow> nat list \<Rightarrow> nat option \<Rightarrow> nat list) \<Rightarrow> 'h world \<Rightarrow> nat list \<Rightarrow> nat option \<Rightarrow>
   nat list" where
  "available_carriers super_available_carriers w self partner =
     available_carriers_loop super_available_carriers w partner self []"

section \<open>Rate quotation: \<^verbatim>\<open>rate_shipment\<close>\<close>

text \<open>
  The loop over \<^verbatim>\<open>carrier.child_ids\<close>: it returns from inside at the first child that
  matches, and falls off its end, so that the method returns \<^verbatim>\<open>None\<close>, when none does.
  The result is \<open>Inl e\<close> for a raised exception and \<open>Inr v\<close> for a returned value, \<open>v\<close>
  being \<open>None\<close> for Python's \<^verbatim>\<open>None\<close>.
\<close>

fun rate_shipment_children ::
  "'h matcher \<Rightarrow> ('h world \<Rightarrow> nat list \<Rightarrow> nat \<Rightarrow> exn + 'r) \<Rightarrow> 'h world \<Rightarrow> nat \<Rightarrow> nat list \<Rightarrow>
   exn + 'r option" where
  "rate_shipment_children match_address super_rate_shipment w order [] = Inr None"
| "rate_shipment_children match_address super_rate_shipment w order (subcarrier # rest) =
     (if match_address w subcarrier (partner_shipping_id (orders w order))
      then map_sum id Some (super_rate_shipment w [subcarrier] order)
      else rate_shipment_children match_address super_rate_shipment w order rest)"

text \<open>
  \<^verbatim>\<open>self.destination_type\<close> reads a field of a recordset: on the empty recordset the read
  gives \<^verbatim>\<open>False\<close> (and \<^verbatim>\<open>child_ids\<close> the empty recordset), on more than one record it
  raises \<^verbatim>\<open>ValueError\<close>.
\<close>

definition rate_shipment ::
  "'h matcher \<Rightarrow> ('h world \<Rightarrow> nat list \<Rightarrow> nat \<Rightarrow> exn + 'r) \<Rightarrow> 'h world \<Rightarrow> nat list \<Rightarrow> nat \<Rightarrow>
   exn + 'r option" where
  "rate_shipment match_address super_rate_shipment w self order =
     (case self of
        [] \<Rightarrow> Inr None
      | [carrier] \<Rightarrow>
          if destination_type (carriers w carrier) = Some Dest_one
          then map_sum id Some (super_rate_shipment w [carrier] order)
          else rate_shipment_children match_address super_rate_shipment w order
                 (child_ids (carriers w carrier))
      | _ \<Rightarrow> Inl (ValueError ''Expected singleton''))"

section \<open>Shipment booking: \<^verbatim>\<open>send_shipping\<close>\<close>

definition set_carrier_id :: "nat \<Rightarrow> nat option \<Rightarrow> 'h world \<Rightarrow> 'h world" where
  "set_carrier_id p v w = w\<lparr>pickings := (pickings w)(p := (pickings w p)\<lparr>carrier_id := v\<rparr>)\<rparr>"

text \<open>
  The inner loop over the candidate children of one picking \<open>p\<close>. Every assignment to
  \<^verbatim>\<open>picking_res\<close> is followed by \<^verbatim>\<open>break\<close>, so the loop ends with \<open>Inr (Some r)\<close> when it
  broke with \<^verbatim>\<open>picking_res = r\<close>, with \<open>Inr None\<close> when it ran to its end
  (\<^verbatim>\<open>picking_res\<close> still \<^verbatim>\<open>False\<close>), and with \<open>Inl e\<close> when \<open>e\<close> left the \<^verbatim>\<open>try\<close> uncaught.
  The \<^verbatim>\<open>finally\<close> clause runs on each of the three ways out of the \<^verbatim>\<open>try\<close>.
\<close>

fun send_shipping_children ::
  "'h matcher \<Rightarrow> 'h booking \<Rightarrow> nat \<Rightarrow> nat \<Rightarrow> nat list \<Rightarrow> 'h world \<Rightarrow>
   (exn + ship_result list option) \<times> 'h world" where
  "send_shipping_children match_address super_send_shipping carrier p [] w = (Inr None, w)"
| "send_shipping_children match_address super_send_shipping carrier p (subcarrier # rest) w =
     (if delivery_type (carriers w subcarrier) = ''fixed''
      then
        (if match_address w subcarrier (partner_id (pickings w p))
         then (Inr (Some [\<lparr>exact_price = fixed_price (carriers w subcarrier),
                            tracking_number = None\<rparr>]), w)
         else send_shipping_children match_address super_send_shipping carrier p rest w)
      else
        (case super_send_shipping [subcarrier] [p] (set_carrier_id p (Some subcarrier) w) of
           (Inr picking_res, w') \<Rightarrow> (Inr (Some picking_res), set_carrier_id p (Some carrier) w')
         | (Inl e, w') \<Rightarrow>
             if isinstance_Exception e
             then send_shipping_children match_address super_send_shipping carrier p rest
                    (set_carrier_id p (Some carrier) w')
             else (Inl e, set_carrier_id p (Some carrier) w')))"

text \<open>
  The candidates of a picking: \<^verbatim>\<open>carrier.child_ids.filtered(...)\<close>, evaluated before the
  inner loop starts.
\<close>

definition candidates_of :: "'h world \<Rightarrow> nat \<Rightarrow> nat \<Rightarrow> nat list" where
  "candidates_of w carrier p =
     filter (\<lambda>x. company_id (carriers w x) = None
                 \<or> company_id (carriers w x) = picking_company_id (pickings w p))
            (child_ids (carriers w carrier))"

text \<open>
  \<^verbatim>\<open>not picking_res\<close> holds for \<^verbatim>\<open>False\<close> and for the empty list.
\<close>

fun falsy :: "ship_result list option \<Rightarrow> bool" where
  "falsy None = True"
| "falsy (Some r) = (r = [])"

fun send_shipping_pickings ::
  "'h matcher \<Rightarrow> 'h booking \<Rightarrow> nat \<Rightarrow> nat list \<Rightarrow> ship_result list \<Rightarrow> 'h world \<Rightarrow>
   (exn + ship_result list) \<times> 'h world" where
  "send_shipping_pickings match_address super_send_shipping carrier [] res w = (Inr res, w)"
| "send_shipping_pickings match_address super_send_shipping carrier (p # ps) res w =
     (case send_shipping_children match_address super_send_shipping carrier p
             (candidates_of w carrier p) w of
        (Inl e, w') \<Rightarrow> (Inl e, w')
      | (Inr picking_res, w') \<Rightarrow>
          if falsy picking_res
          then (Inl (ValidationError ''There is no matching delivery rule.''), w')
          else send_shipping_pickings match_address super_send_shipping carrier ps
                 (res @ the picking_res) w')"

definition send_shipping ::
  "'h matcher \<Rightarrow> 'h booking \<Rightarrow> nat list \<Rightarrow> nat list \<Rightarrow> 'h world \<Rightarrow>
   (exn + ship_result list) \<times> 'h world" where
  "send_shipping match_address super_send_shipping self pickings_arg w =
     (case self of
        [] \<Rightarrow> super_send_shipping [] pickings_arg w
      | [carrier] \<Rightarrow>
          if destination_type (carriers w carrier) = Some Dest_one
          then super_send_shipping [carrier] pickings_arg w
          else send_shipping_pickings match_address super_send_shipping carrier pickings_arg [] w
      | _ \<Rightarrow> (Inl (ValueError ''Expected singleton''), w))"

section \<open>An example database\<close>

text \<open>
  Carrier 1 is a \<^verbatim>\<open>multi\<close> carrier with the children 2 (rule based), 3 and 4 (both fixed
  price); carrier 5 is a \<^verbatim>\<open>multi\<close> carrier whose only child is 2; carrier 7 is a
  \<^verbatim>\<open>multi\<close> carrier that lists the fixed price children 8 and 9 before the rule based
  carrier 2; carrier 6 is a plain carrier. Picking 10 refers to carrier 1, picking 11 to
  no carrier.
\<close>

definition ex_carriers :: "nat \<Rightarrow> carrier" where
  "ex_carriers i =
     (if i = 1 then \<lparr>delivery_type = ''base_on_destination'', destination_type = Some Dest_multi,
                     company_id = None, fixed_price = 0, parent_id = None, child_ids = [2, 3, 4]\<rparr>
      else if i = 2 then \<lparr>delivery_type = ''base_on_rule'', destination_type = Some Dest_one,
                     company_id = None, fixed_price = 0, parent_id = Some 1, child_ids = []\<rparr>
      else if i = 3 then \<lparr>delivery_type = ''fixed'', destination_type = Some Dest_one,
                     company_id = None, fixed_price = 5, parent_id = Some 1, child_ids = []\<rparr>
      else if i = 4 then \<lparr>delivery_type = ''fixed'', destination_type = Some Dest_one,
                     company_id = Some 1, fixed_price = 8, parent_id = Some 1, child_ids = []\<rparr>
      else if i = 5 then \<lparr>delivery_type = ''base_on_destination'', destination_type = Some Dest_multi,
                     company_id = None, fixed_price = 0, parent_id = None, child_ids = [2]\<rparr>
      else if i = 7 then \<lparr>delivery_type = ''base_on_destination'', destination_type = Some Dest_multi,
                     company_id = None, fixed_price = 0, parent_id = None, child_ids = [8, 9, 2]\<rparr>
      else if i = 8 then \<lparr>delivery_type = ''fixed'', destination_type = Some Dest_one,
                     company_id = None, fixed_price = 4, parent_id = Some 7, child_ids = []\<rparr>
      else if i = 9 then \<lparr>delivery_type = ''fixed'', destination_type = Some Dest_one,
                     company_id = None, fixed_price = 6, parent_id = Some 7, child_ids = []\<rparr>
      else \<lparr>delivery_type = ''fixed'', destination_type = Some Dest_one,
            company_id = None, fixed_price = 3, parent_id = None, child_ids = []\<rparr>)"

definition ex_pickings :: "nat \<Rightarrow> picking" where
  "ex_pickings i =
     (if i = 10 then \<lparr>carrier_id = Some 1, picking_company_id = Some 1, partner_id = Some 100\<rparr>
      else \<lparr>carrier_id = None, picking_company_id = Some 1, partner_id = Some 100\<rparr>)"

definition ex_orders :: "nat \<Rightarrow> sale_order" where
  "ex_orders i = \<lparr>partner_shipping_id = Some 100\<rparr>"

definition ex_world :: "unit world" where
  "ex_world = \<lparr>carriers = ex_carriers, pickings = ex_pickings, orders = ex_orders, host = ()\<rparr>"

text \<open>Host behaviours for the examples: address rules, bookings and a search.\<close>

definition ex_match_all :: "unit matcher" where
  "ex_match_all w c partner = True"

definition ex_match_fixed :: "unit matcher" where
  "ex_match_fixed w c partner = (c = 3 \<or> c = 4 \<or> c = 9)"

definition ex_match_none :: "unit matcher" where
  "ex_match_none w c partner = False"

definition ex_booking_raises :: "unit booking" where
  "ex_booking_raises cs ps w = (Inl (OtherException ''no price rule''), w)"

definition ex_booking_empty :: "unit booking" where
  "ex_booking_empty cs ps w = (Inr [], w)"

definition ex_booking_ok :: "unit booking" where
  "ex_booking_ok cs ps w = (Inr [\<lparr>exact_price = 99, tracking_number = Some ''TRACK''\<rparr>], w)"


definition ex_super_available :: "unit world \<Rightarrow> nat list \<Rightarrow> nat option \<Rightarrow> nat list" where
  "ex_super_available w cs partner = filter (\<lambda>c. c = 3 \<or> c = 6) cs"

section \<open>Properties of the derived field\<close>

lemma compute_destination_type_value:
  "destination_type (compute_destination_type c) =
     (if delivery_type c = ''base_on_destination'' then Some Dest_multi else Some Dest_one)"
  by (simp add: compute_destination_type_def)

lemma compute_keeps_delivery_type:
  "delivery_type (compute_destination_type c) = delivery_type c"
  by (simp add: compute_destination_type_def)

lemma invariant_compute: "destination_invariant (compute_destination_type c)"
  by (simp add: destination_invariant_def compute_destination_type_def)

lemma invariant_inverse: "destination_invariant (inverse_destination_type c)"
  by (simp add: destination_invariant_def inverse_destination_type_def)

lemma invariant_write: "destination_invariant (write_field r wop c)"
  by (cases wop) (simp_all add: Let_def invariant_compute invariant_inverse)

lemma invariant_writes:
  "ops \<noteq> [] \<or> destination_invariant c \<Longrightarrow> destination_invariant (write_fields r ops c)"
proof (induction ops arbitrary: c)
  case Nil
  then show ?case by simp
next
  case (Cons wop ops)
  have "destination_invariant (write_field r wop c)" by (rule invariant_write)
  then show ?case using Cons.IH [of "write_field r wop c"] by simp
qed

lemma inverse_delivery_type:
  "delivery_type (inverse_destination_type c) =
     (if destination_type c = Some Dest_multi then ''base_on_destination''
      else if delivery_type c = ''base_on_destination'' then ''fixed''
      else delivery_type c)"
  by (simp add: inverse_destination_type_def)

text \<open>
  Claim C5. After a write to \<^verbatim>\<open>delivery_type\<close> or to \<^verbatim>\<open>destination_type\<close>, and after any
  further writes, \<^verbatim>\<open>destination_type\<close> reads \<^verbatim>\<open>multi\<close> exactly when \<^verbatim>\<open>delivery_type\<close> is
  \<^verbatim>\<open>base_on_destination\<close>, whatever the record held before. The compute direction maps
  \<^verbatim>\<open>base_on_destination\<close> to \<^verbatim>\<open>multi\<close> and every other delivery type to \<^verbatim>\<open>one\<close>; the
  inverse direction, run on a record whose \<^verbatim>\<open>destination_type\<close> was set to \<^verbatim>\<open>multi\<close>, forces
  \<^verbatim>\<open>delivery_type\<close> to \<^verbatim>\<open>base_on_destination\<close>.
\<close>

theorem destination_type_iff_base_on_destination:
  assumes "ops \<noteq> []"
  shows "((destination_type (write_fields r ops c) = Some Dest_multi) =
          (delivery_type (write_fields r ops c) = ''base_on_destination''))
       \<and> destination_type (compute_destination_type c) =
           (if delivery_type c = ''base_on_destination'' then Some Dest_multi else Some Dest_one)
       \<and> delivery_type (inverse_destination_type (c\<lparr>destination_type := Some Dest_multi\<rparr>)) =
           ''base_on_destination''"
proof -
  have "destination_invariant (write_fields r ops c)"
    using assms by (simp add: invariant_writes)
  then show ?thesis
    by (simp add: destination_invariant_def compute_destination_type_value
        inverse_delivery_type)
qed

theorem destination_type_iff_base_on_destination_witness:
  "[Write_destination_type (Some Dest_multi), Write_delivery_type ''base_on_rule'',
    Write_destination_type (Some Dest_multi), Write_destination_type None] \<noteq> []
   \<and> delivery_type (write_fields False
        [Write_destination_type (Some Dest_multi), Write_delivery_type ''base_on_rule'',
         Write_destination_type (Some Dest_multi), Write_destination_type None]
        \<lparr>delivery_type = ''fixed'', destination_type = Some Dest_one, company_id = None,
         fixed_price = 0, parent_id = None, child_ids = []\<rparr>) = ''fixed''
   \<and> destination_type (write_fields False
        [Write_destination_type (Some Dest_multi), Write_delivery_type ''base_on_rule'',
         Write_destination_type (Some Dest_multi), Write_destination_type None]
        \<lparr>delivery_type = ''fixed'', destination_type = Some Dest_one, company_id = None,
         fixed_price = 0, parent_id = None, child_ids = []\<rparr>) \<noteq> Some Dest_multi"
  using destination_type_iff_base_on_destination
    [of "[Write_destination_type (Some Dest_multi), Write_delivery_type ''base_on_rule'',
          Write_destination_type (Some Dest_multi), Write_destination_type None]"
        False
        "\<lparr>delivery_type = ''fixed'', destination_type = Some Dest_one, company_id = None,
          fixed_price = 0, parent_id = None, child_ids = []\<rparr>"]
  by (simp add: compute_destination_type_def inverse_destination_type_def)

text \<open>
  Claim C6. Setting \<^verbatim>\<open>destination_type\<close> away from \<^verbatim>\<open>multi\<close> (to \<^verbatim>\<open>one\<close>, or to any value
  other than \<^verbatim>\<open>multi\<close>) resets \<^verbatim>\<open>delivery_type\<close> to \<^verbatim>\<open>fixed\<close> when the current
  \<^verbatim>\<open>delivery_type\<close> is \<^verbatim>\<open>base_on_destination\<close> and leaves it unchanged otherwise, both for
  the inverse method itself and for the write that runs it.
\<close>

theorem inverse_away_from_multi:
  assumes "d \<noteq> Some Dest_multi"
  shows "delivery_type (inverse_destination_type (c\<lparr>destination_type := d\<rparr>)) =
           (if delivery_type c = ''base_on_destination'' then ''fixed'' else delivery_type c)
       \<and> delivery_type (write_field r (Write_destination_type d) c) =
           (if delivery_type c = ''base_on_destination'' then ''fixed'' else delivery_type c)"
  using assms
  by (simp add: inverse_delivery_type compute_keeps_delivery_type Let_def)

theorem inverse_away_from_multi_witness:
  "Some Dest_one \<noteq> Some Dest_multi
   \<and> delivery_type (inverse_destination_type
        (\<lparr>delivery_type = ''base_on_destination'', destination_type = Some Dest_multi,
          company_id = None, fixed_price = 0, parent_id = None, child_ids = [2, 3]\<rparr>
         \<lparr>destination_type := Some Dest_one\<rparr>)) = ''fixed''"
  using inverse_away_from_multi
    [of "Some Dest_one"
        "\<lparr>delivery_type = ''base_on_destination'', destination_type = Some Dest_multi,
          company_id = None, fixed_price = 0, parent_id = None, child_ids = [2, 3]\<rparr>"]
  by simp

section \<open>Properties of the example database\<close>

lemma ex_world_fields:
  "carriers ex_world = ex_carriers" "pickings ex_world = ex_pickings"
  "orders ex_world = ex_orders"
  by (simp_all add: ex_world_def)

section \<open>Properties of the listing filter\<close>



section \<open>Properties of the availability check\<close>

lemma set_recordset_union: "set (recordset_union xs ys) = set xs \<union> set ys"
  by (induction ys arbitrary: xs) auto

lemma set_available_carriers_loop:
  "set (available_carriers_loop sa w partner cs avail) =
     set avail \<union>
     {c \<in> set cs. sa w (if destination_type (carriers w c) = Some Dest_one then [c]
                         else child_ids (carriers w c)) partner \<noteq> []}"
  by (induction cs arbitrary: avail) (auto simp: Let_def set_recordset_union)

text \<open>
  Claim C7. A carrier of the input set whose \<^verbatim>\<open>destination_type\<close> is \<^verbatim>\<open>one\<close> is in the
  result exactly when the inherited availability check accepts the carrier itself; a
  \<^verbatim>\<open>multi\<close> carrier of the input set is in the result exactly when the inherited check,
  run on its children, returns a non-empty recordset, which for an inherited check that
  decides record by record means that at least one child is available for the partner.
\<close>

theorem available_carriers_membership:
  "(destination_type (carriers w c) = Some Dest_one \<longrightarrow>
      (c \<in> set (available_carriers sa w self partner)) =
      (c \<in> set self \<and> sa w [c] partner \<noteq> []))
   \<and> (destination_type (carriers w c) = Some Dest_multi \<longrightarrow>
      (c \<in> set (available_carriers sa w self partner)) =
      (c \<in> set self \<and> sa w (child_ids (carriers w c)) partner \<noteq> []))
   \<and> (destination_type (carriers w c) = Some Dest_multi
        \<and> (\<forall>cs. set (sa w cs partner) = {x \<in> set cs. sa w [x] partner \<noteq> []}) \<longrightarrow>
      (c \<in> set (available_carriers sa w self partner)) =
      (c \<in> set self \<and> (\<exists>child \<in> set (child_ids (carriers w c)). sa w [child] partner \<noteq> [])))"
proof -
  have mem: "(c \<in> set (available_carriers sa w self partner)) =
      (c \<in> set self \<and> sa w (if destination_type (carriers w c) = Some Dest_one then [c]
                         else child_ids (carriers w c)) partner \<noteq> [])"
    by (simp add: available_carriers_def set_available_carriers_loop)
  have pt: "(sa w xs partner \<noteq> []) = (\<exists>child \<in> set xs. sa w [child] partner \<noteq> [])"
    if "\<forall>cs. set (sa w cs partner) = {x \<in> set cs. sa w [x] partner \<noteq> []}" for xs
  proof -
    have "(sa w xs partner \<noteq> []) = (set (sa w xs partner) \<noteq> {})" by simp
    also have "\<dots> = ({x \<in> set xs. sa w [x] partner \<noteq> []} \<noteq> {})" using that by simp
    also have "\<dots> = (\<exists>child \<in> set xs. sa w [child] partner \<noteq> [])" by blast
    finally show ?thesis .
  qed
  have one: "destination_type (carriers w c) = Some Dest_one \<longrightarrow>
      (c \<in> set (available_carriers sa w self partner)) =
      (c \<in> set self \<and> sa w [c] partner \<noteq> [])"
    using mem by simp
  have multi: "destination_type (carriers w c) = Some Dest_multi \<longrightarrow>
      (c \<in> set (available_carriers sa w self partner)) =
      (c \<in> set self \<and> sa w (child_ids (carriers w c)) partner \<noteq> [])"
    using mem by simp
  have pointwise: "destination_type (carriers w c) = Some Dest_multi
        \<and> (\<forall>cs. set (sa w cs partner) = {x \<in> set cs. sa w [x] partner \<noteq> []}) \<longrightarrow>
      (c \<in> set (available_carriers sa w self partner)) =
      (c \<in> set self \<and> (\<exists>child \<in> set (child_ids (carriers w c)). sa w [child] partner \<noteq> []))"
  proof
    assume h: "destination_type (carriers w c) = Some Dest_multi
        \<and> (\<forall>cs. set (sa w cs partner) = {x \<in> set cs. sa w [x] partner \<noteq> []})"
    from h multi have "(c \<in> set (available_carriers sa w self partner)) =
      (c \<in> set self \<and> sa w (child_ids (carriers w c)) partner \<noteq> [])"
      by blast
    moreover from h have "(sa w (child_ids (carriers w c)) partner \<noteq> []) =
      (\<exists>child \<in> set (child_ids (carriers w c)). sa w [child] partner \<noteq> [])"
      using pt [of "child_ids (carriers w c)"] by blast
    ultimately show "(c \<in> set (available_carriers sa w self partner)) =
      (c \<in> set self \<and> (\<exists>child \<in> set (child_ids (carriers w c)). sa w [child] partner \<noteq> []))"
      by simp
  qed
  from one multi pointwise show ?thesis by blast
qed

theorem available_carriers_membership_witness:
  "destination_type (carriers ex_world 1) = Some Dest_multi
   \<and> (\<forall>cs. set (ex_super_available ex_world cs (Some 100)) =
             {x \<in> set cs. ex_super_available ex_world [x] (Some 100) \<noteq> []})
   \<and> ex_super_available ex_world [3] (Some 100) \<noteq> []
   \<and> 3 \<in> set (child_ids (carriers ex_world 1))
   \<and> ex_super_available ex_world (child_ids (carriers ex_world 5)) (Some 100) = []
   \<and> available_carriers ex_super_available ex_world [1, 5, 6, 1] (Some 100) = [1, 6]"
  using available_carriers_membership [of ex_world 1 ex_super_available "[1, 5, 6, 1]" "Some 100"]
    available_carriers_membership [of ex_world 5 ex_super_available "[1, 5, 6, 1]" "Some 100"]
    available_carriers_membership [of ex_world 6 ex_super_available "[1, 5, 6, 1]" "Some 100"]
  by (auto simp add: available_carriers_def ex_world_fields ex_carriers_def ex_super_available_def)

section \<open>Properties of the rate quotation\<close>

lemma rate_shipment_children_find:
  "rate_shipment_children m sr w ord subs =
     (case find (\<lambda>x. m w x (partner_shipping_id (orders w ord))) subs of
        None \<Rightarrow> Inr None
      | Some s \<Rightarrow> map_sum id Some (sr w [s] ord))"
  by (induction subs) simp_all

text \<open>
  Claim C1. For a carrier whose \<^verbatim>\<open>destination_type\<close> is \<^verbatim>\<open>multi\<close>, \<^verbatim>\<open>rate_shipment\<close> goes
  through the children in their stored order and returns what the inherited rate
  computation gives for the first child whose address rule accepts the order's shipping
  address (the rate, or the exception it raises); with children \<open>a\<close>, \<open>b\<close> that both
  match, it is the rate of \<open>a\<close>.
\<close>

theorem rate_shipment_first_match:
  assumes "destination_type (carriers w c) = Some Dest_multi"
  shows "rate_shipment m sr w [c] ord =
           (case find (\<lambda>x. m w x (partner_shipping_id (orders w ord))) (child_ids (carriers w c)) of
              None \<Rightarrow> Inr None
            | Some s \<Rightarrow> map_sum id Some (sr w [s] ord))
       \<and> (\<forall>a b rest. child_ids (carriers w c) = a # b # rest
             \<and> m w a (partner_shipping_id (orders w ord))
             \<and> m w b (partner_shipping_id (orders w ord))
           \<longrightarrow> rate_shipment m sr w [c] ord = map_sum id Some (sr w [a] ord))"
  using assms by (simp add: rate_shipment_def rate_shipment_children_find)

theorem rate_shipment_first_match_witness:
  "destination_type (carriers ex_world 1) = Some Dest_multi
   \<and> child_ids (carriers ex_world 1) = [2, 3, 4]
   \<and> rate_shipment ex_match_all (\<lambda>w cs ord. Inr cs) ex_world [1] 20 = Inr (Some [2])
   \<and> rate_shipment ex_match_fixed (\<lambda>w cs ord. Inr cs) ex_world [1] 20 = Inr (Some [3])"
  using rate_shipment_first_match [of ex_world 1 ex_match_all "\<lambda>w cs ord. Inr cs" 20]
    rate_shipment_first_match [of ex_world 1 ex_match_fixed "\<lambda>w cs ord. Inr cs" 20]
  by (simp add: ex_world_fields ex_carriers_def ex_match_all_def ex_match_fixed_def)

text \<open>
  Claim C9. For a \<^verbatim>\<open>multi\<close> carrier none of whose children accepts the order's shipping
  address, \<^verbatim>\<open>rate_shipment\<close> returns \<^verbatim>\<open>None\<close>: it returns, and raises nothing.
\<close>

theorem rate_shipment_no_match:
  assumes "destination_type (carriers w c) = Some Dest_multi"
      and "\<forall>s \<in> set (child_ids (carriers w c)). \<not> m w s (partner_shipping_id (orders w ord))"
  shows "rate_shipment m sr w [c] ord = Inr None"
proof -
  have "find (\<lambda>x. m w x (partner_shipping_id (orders w ord))) (child_ids (carriers w c)) = None"
    using assms(2) by (simp add: find_None_iff)
  then show ?thesis
    using assms(1) by (simp add: rate_shipment_def rate_shipment_children_find)
qed

theorem rate_shipment_no_match_witness:
  "destination_type (carriers ex_world 1) = Some Dest_multi
   \<and> rate_shipment ex_match_none (\<lambda>w cs ord. Inl (OtherException ''never called'')) ex_world [1] 20
       = (Inr None :: exn + nat option)"
  using rate_shipment_no_match [of ex_world 1 ex_match_none 20
      "\<lambda>w cs ord. Inl (OtherException ''never called'')"]
  by (simp add: ex_world_fields ex_carriers_def ex_match_none_def)

section \<open>Properties of the shipment booking\<close>

subsection \<open>The loop over the candidate children\<close>

lemma send_shipping_children_append:
  "send_shipping_children m b c p (xs @ ys) w =
     (case send_shipping_children m b c p xs w of
        (Inr None, w1) \<Rightarrow> send_shipping_children m b c p ys w1
      | r \<Rightarrow> r)"
  by (induction xs arbitrary: w) (simp_all split: prod.splits sum.splits option.splits)

lemma send_shipping_children_skip_fixed:
  "\<forall>x \<in> set pre. delivery_type (carriers w x) = ''fixed'' \<and> \<not> m w x (partner_id (pickings w p))
   \<Longrightarrow> send_shipping_children m b c p (pre @ rest) w = send_shipping_children m b c p rest w"
  by (induction pre) simp_all

lemma carrier_id_set_carrier_id:
  "carrier_id (pickings (set_carrier_id p v w) q) = (if q = p then v else carrier_id (pickings w q))"
  by (simp add: set_carrier_id_def)

lemma send_shipping_children_keeps_parent:
  "carrier_id (pickings w p) = Some c
   \<Longrightarrow> carrier_id (pickings (snd (send_shipping_children m b c p subs w)) p) = Some c"
  by (induction subs arbitrary: w)
     (simp_all add: carrier_id_set_carrier_id split: prod.splits sum.splits)


lemma carriers_set_carrier_id: "carriers (set_carrier_id p v w) = carriers w"
  by (simp add: set_carrier_id_def)

lemma pickings_set_carrier_id:
  "pickings (set_carrier_id p v w) q =
     (if q = p then (pickings w p)\<lparr>carrier_id := v\<rparr> else pickings w q)"
  by (simp add: set_carrier_id_def)

lemmas ex_simps = send_shipping_def candidates_of_def ex_world_fields ex_carriers_def
      ex_pickings_def carriers_set_carrier_id pickings_set_carrier_id

subsection \<open>The loop over the pickings\<close>

lemma send_shipping_multi:
  "destination_type (carriers w c) = Some Dest_multi
   \<Longrightarrow> send_shipping m b [c] ps w = send_shipping_pickings m b c ps [] w"
  by (simp add: send_shipping_def)






subsection \<open>The carrier reference of the pickings\<close>

lemma send_shipping_children_others:
  assumes frame: "\<forall>s q w0 q'. q' \<noteq> q \<longrightarrow>
      carrier_id (pickings (snd (b [s] [q] w0)) q') = carrier_id (pickings w0 q')"
      and "q \<noteq> p"
  shows "carrier_id (pickings (snd (send_shipping_children m b c p subs w)) q) =
         carrier_id (pickings w q)"
proof (induction subs arbitrary: w)
  case Nil
  then show ?case by simp
next
  case (Cons s subs)
  show ?case
  proof (cases "delivery_type (carriers w s) = ''fixed''")
    case True
    then show ?thesis using Cons.IH [of w] by simp
  next
    case False
    obtain out w' where bw: "b [s] [p] (set_carrier_id p (Some s) w) = (out, w')"
      by (cases "b [s] [p] (set_carrier_id p (Some s) w)")
    from frame \<open>q \<noteq> p\<close>
    have "carrier_id (pickings (snd (b [s] [p] (set_carrier_id p (Some s) w))) q) =
          carrier_id (pickings (set_carrier_id p (Some s) w) q)"
      by blast
    with bw \<open>q \<noteq> p\<close> have w': "carrier_id (pickings w' q) = carrier_id (pickings w q)"
      by (simp add: carrier_id_set_carrier_id)
    with \<open>q \<noteq> p\<close>
    have w3: "carrier_id (pickings (set_carrier_id p (Some c) w') q) = carrier_id (pickings w q)"
      by (simp add: carrier_id_set_carrier_id)
    show ?thesis
    proof (cases out)
      case (Inr r)
      with False bw w3 show ?thesis by simp
    next
      case (Inl e)
      with False bw w3 Cons.IH [of "set_carrier_id p (Some c) w'"] show ?thesis by simp
    qed
  qed
qed

lemma send_shipping_children_own:
  "carrier_id (pickings (snd (send_shipping_children m b c p subs w)) p) = carrier_id (pickings w p)
   \<or> carrier_id (pickings (snd (send_shipping_children m b c p subs w)) p) = Some c"
proof (induction subs arbitrary: w)
  case Nil
  then show ?case by simp
next
  case (Cons s subs)
  show ?case
  proof (cases "delivery_type (carriers w s) = ''fixed''")
    case True
    then show ?thesis using Cons.IH [of w] by simp
  next
    case False
    obtain out w' where bw: "b [s] [p] (set_carrier_id p (Some s) w) = (out, w')"
      by (cases "b [s] [p] (set_carrier_id p (Some s) w)")
    have w3: "carrier_id (pickings (set_carrier_id p (Some c) w') p) = Some c"
      by (simp add: carrier_id_set_carrier_id)
    show ?thesis
    proof (cases out)
      case (Inr r)
      with False bw w3 show ?thesis by simp
    next
      case (Inl e)
      from send_shipping_children_keeps_parent [OF w3]
      have "carrier_id (pickings (snd (send_shipping_children m b c p subs
              (set_carrier_id p (Some c) w'))) p) = Some c" .
      with False bw w3 Inl show ?thesis by simp
    qed
  qed
qed

lemma send_shipping_children_attempted:
  assumes "delivery_type (carriers w s) \<noteq> ''fixed''"
  shows "carrier_id (pickings (snd (send_shipping_children m b c p (s # rest) w)) p) = Some c"
proof -
  obtain out w' where bw: "b [s] [p] (set_carrier_id p (Some s) w) = (out, w')"
    by (cases "b [s] [p] (set_carrier_id p (Some s) w)")
  have w3: "carrier_id (pickings (set_carrier_id p (Some c) w') p) = Some c"
    by (simp add: carrier_id_set_carrier_id)
  show ?thesis
  proof (cases out)
    case (Inr r)
    with assms bw w3 show ?thesis by simp
  next
    case (Inl e)
    from send_shipping_children_keeps_parent [OF w3]
    have "carrier_id (pickings (snd (send_shipping_children m b c p rest
            (set_carrier_id p (Some c) w'))) p) = Some c" .
    with assms bw w3 Inl show ?thesis by simp
  qed
qed

lemma send_shipping_pickings_carrier_id:
  assumes frame: "\<forall>s q w0 q'. q' \<noteq> q \<longrightarrow>
      carrier_id (pickings (snd (b [s] [q] w0)) q') = carrier_id (pickings w0 q')"
  shows "carrier_id (pickings (snd (send_shipping_pickings m b c ps res w)) q) =
           carrier_id (pickings w q)
       \<or> (q \<in> set ps
          \<and> carrier_id (pickings (snd (send_shipping_pickings m b c ps res w)) q) = Some c)"
proof (induction ps arbitrary: res w)
  case Nil
  then show ?case by simp
next
  case (Cons p ps)
  obtain out w' where sc:
    "send_shipping_children m b c p (candidates_of w c p) w = (out, w')"
    by (cases "send_shipping_children m b c p (candidates_of w c p) w")
  have step: "carrier_id (pickings w' q) = carrier_id (pickings w q)
      \<or> (q = p \<and> carrier_id (pickings w' q) = Some c)"
  proof (cases "q = p")
    case True
    with send_shipping_children_own [of m b c p "candidates_of w c p" w] sc
    show ?thesis by simp
  next
    case False
    with send_shipping_children_others [OF frame False, of m c "candidates_of w c p" w] sc
    show ?thesis by simp
  qed
  show ?case
  proof (cases out)
    case (Inl e)
    with sc step show ?thesis by auto
  next
    case (Inr pr)
    show ?thesis
    proof (cases "falsy pr")
      case True
      with sc Inr step show ?thesis by auto
    next
      case False
      with sc Inr have eq: "send_shipping_pickings m b c (p # ps) res w =
        send_shipping_pickings m b c ps (res @ the pr) w'" by simp
      from Cons.IH [of "res @ the pr" w'] step show ?thesis
        unfolding eq by auto
    qed
  qed
qed

subsection \<open>Fixed price children\<close>

text \<open>
  Claim C2, as stated, fails: a fixed price child that matches is not reached when an
  earlier candidate ends the scan. The claim as amended: for a \<^verbatim>\<open>multi\<close> carrier and a
  picking, let \<open>s\<close> be a fixed price child that passes the company filter and whose address
  rule accepts the picking's recipient address, every candidate before it being a fixed
  price child whose rule does not accept it. Then the scan of that picking ends at \<open>s\<close> with
  the result \<^verbatim>\<open>{exact_price: s.fixed_price, tracking_number: False}\<close>, which is appended to
  the results; no booking behaviour is invoked (the outcome is the same for every booking
  function \<open>b\<close>, and the world is unchanged).
\<close>

theorem send_shipping_fixed_child:
  assumes "destination_type (carriers w c) = Some Dest_multi"
      and "candidates_of w c p = pre @ s # post"
      and "\<forall>x \<in> set pre. delivery_type (carriers w x) = ''fixed''
                          \<and> \<not> m w x (partner_id (pickings w p))"
      and "delivery_type (carriers w s) = ''fixed''"
      and "m w s (partner_id (pickings w p))"
  shows "send_shipping_children m b c p (candidates_of w c p) w =
           (Inr (Some [\<lparr>exact_price = fixed_price (carriers w s), tracking_number = None\<rparr>]), w)
       \<and> send_shipping_pickings m b c (p # ps) res w =
           send_shipping_pickings m b c ps
             (res @ [\<lparr>exact_price = fixed_price (carriers w s), tracking_number = None\<rparr>]) w
       \<and> send_shipping m b [c] [p] w =
           (Inr [\<lparr>exact_price = fixed_price (carriers w s), tracking_number = None\<rparr>], w)
       \<and> send_shipping m b [c] [p] w = send_shipping m b' [c] [p] w"
proof -
  have scan: "send_shipping_children m bb c p (candidates_of w c p) w =
           (Inr (Some [\<lparr>exact_price = fixed_price (carriers w s), tracking_number = None\<rparr>]), w)"
    for bb
    using assms(3-5) by (simp add: assms(2) send_shipping_children_skip_fixed)
  have loop: "send_shipping_pickings m bb c (p # qs) r w =
           send_shipping_pickings m bb c qs
             (r @ [\<lparr>exact_price = fixed_price (carriers w s), tracking_number = None\<rparr>]) w"
    for bb qs r
    by (simp add: scan)
  have top: "send_shipping m bb [c] [p] w =
           (Inr [\<lparr>exact_price = fixed_price (carriers w s), tracking_number = None\<rparr>], w)" for bb
    using assms(1) by (simp add: send_shipping_multi scan)
  show ?thesis using scan loop top by simp
qed

theorem send_shipping_fixed_child_witness:
  "destination_type (carriers ex_world 7) = Some Dest_multi
   \<and> candidates_of ex_world 7 10 = [8] @ 9 # [2]
   \<and> delivery_type (carriers ex_world 8) = ''fixed''
   \<and> \<not> ex_match_fixed ex_world 8 (partner_id (pickings ex_world 10))
   \<and> delivery_type (carriers ex_world 9) = ''fixed''
   \<and> ex_match_fixed ex_world 9 (partner_id (pickings ex_world 10))
   \<and> send_shipping ex_match_fixed ex_booking_ok [7] [10] ex_world =
       (Inr [\<lparr>exact_price = 6, tracking_number = None\<rparr>], ex_world)"
  using send_shipping_fixed_child [of ex_world 7 10 "[8]" 9 "[2]" ex_match_fixed ex_booking_ok]
  by (simp add: candidates_of_def ex_world_fields ex_carriers_def ex_pickings_def
      ex_match_fixed_def)

text \<open>
  The counterexample to C2 as stated: carrier 1 has the matching fixed price child 3, but
  the rule based child 2 comes first and its booking succeeds; the result is the one of
  child 2.
\<close>

theorem send_shipping_fixed_child_counterexample:
  "destination_type (carriers ex_world 1) = Some Dest_multi
   \<and> 3 \<in> set (child_ids (carriers ex_world 1))
   \<and> delivery_type (carriers ex_world 3) = ''fixed''
   \<and> ex_match_fixed ex_world 3 (partner_id (pickings ex_world 10))
   \<and> fst (send_shipping ex_match_fixed ex_booking_ok [1] [10] ex_world) =
       Inr [\<lparr>exact_price = 99, tracking_number = Some ''TRACK''\<rparr>]
   \<and> fst (send_shipping ex_match_fixed ex_booking_ok [1] [10] ex_world) \<noteq>
       Inr [\<lparr>exact_price = fixed_price (carriers ex_world 3), tracking_number = None\<rparr>]"
  by (simp add: send_shipping_def candidates_of_def ex_world_fields ex_carriers_def
      ex_pickings_def ex_match_fixed_def ex_booking_ok_def carriers_set_carrier_id
      pickings_set_carrier_id)

subsection \<open>Failures of the delegated booking\<close>



subsection \<open>Restoring the carrier reference\<close>

text \<open>
  Claim C4, as stated, fails: the \<^verbatim>\<open>finally\<close> clause assigns the parent carrier, not the
  value the picking held before the call. The claim as amended: once the booking of a
  non-fixed child has been attempted for a picking, the picking's carrier reference is the
  parent carrier when the scan of that picking is left, on every exit path (result,
  swallowed failure, propagated error). So, provided the delegated booking of a picking
  leaves the carrier reference of the other pickings alone, after \<^verbatim>\<open>send_shipping\<close> on a
  \<^verbatim>\<open>multi\<close> carrier has returned or raised, every picking's carrier reference is either
  what it was before the call or, for a picking of the call, the parent carrier; a
  reference that was the parent carrier before the call is unchanged.
\<close>

theorem send_shipping_carrier_reference:
  "(delivery_type (carriers w s) \<noteq> ''fixed'' \<longrightarrow>
      carrier_id (pickings (snd (send_shipping_children m b c p (s # rest) w)) p) = Some c)
   \<and> (destination_type (carriers w c) = Some Dest_multi
      \<and> (\<forall>s q w0 q'. q' \<noteq> q \<longrightarrow>
            carrier_id (pickings (snd (b [s] [q] w0)) q') = carrier_id (pickings w0 q')) \<longrightarrow>
      carrier_id (pickings (snd (send_shipping m b [c] ps w)) q) = carrier_id (pickings w q)
      \<or> (q \<in> set ps
          \<and> carrier_id (pickings (snd (send_shipping m b [c] ps w)) q) = Some c))
   \<and> (destination_type (carriers w c) = Some Dest_multi
      \<and> (\<forall>s q w0 q'. q' \<noteq> q \<longrightarrow>
            carrier_id (pickings (snd (b [s] [q] w0)) q') = carrier_id (pickings w0 q'))
      \<and> carrier_id (pickings w q) = Some c \<longrightarrow>
      carrier_id (pickings (snd (send_shipping m b [c] ps w)) q) = carrier_id (pickings w q))"
proof -
  have attempt: "delivery_type (carriers w s) \<noteq> ''fixed'' \<longrightarrow>
      carrier_id (pickings (snd (send_shipping_children m b c p (s # rest) w)) p) = Some c"
    using send_shipping_children_attempted [of w s m b c p rest] by blast
  have general: "carrier_id (pickings (snd (send_shipping m b [c] ps w)) q) =
        carrier_id (pickings w q)
      \<or> (q \<in> set ps
          \<and> carrier_id (pickings (snd (send_shipping m b [c] ps w)) q) = Some c)"
    if multi: "destination_type (carriers w c) = Some Dest_multi"
      and frame: "\<forall>s q w0 q'. q' \<noteq> q \<longrightarrow>
            carrier_id (pickings (snd (b [s] [q] w0)) q') = carrier_id (pickings w0 q')"
  proof -
    from multi have "send_shipping m b [c] ps w = send_shipping_pickings m b c ps [] w"
      by (rule send_shipping_multi)
    with send_shipping_pickings_carrier_id [OF frame, of m c ps "[]" w q]
    show ?thesis by simp
  qed
  have unchanged: "carrier_id (pickings (snd (send_shipping m b [c] ps w)) q) =
        carrier_id (pickings w q)"
    if multi: "destination_type (carriers w c) = Some Dest_multi"
      and frame: "\<forall>s q w0 q'. q' \<noteq> q \<longrightarrow>
            carrier_id (pickings (snd (b [s] [q] w0)) q') = carrier_id (pickings w0 q')"
      and parent: "carrier_id (pickings w q) = Some c"
    using general [OF multi frame] parent by auto
  from attempt general unchanged show ?thesis by blast
qed

theorem send_shipping_carrier_reference_witness:
  "destination_type (carriers ex_world 1) = Some Dest_multi
   \<and> (\<forall>s q w0 q'. carrier_id (pickings (snd (ex_booking_raises [s] [q] w0)) q') =
                     carrier_id (pickings w0 q'))
   \<and> carrier_id (pickings ex_world 10) = Some 1
   \<and> fst (send_shipping ex_match_none ex_booking_raises [1] [10] ex_world) =
       Inl (ValidationError ''There is no matching delivery rule.'')
   \<and> carrier_id (pickings (snd (send_shipping ex_match_none ex_booking_raises [1] [10] ex_world)) 10) =
       Some 1"
  using send_shipping_carrier_reference [of ex_world 2 ex_match_none ex_booking_raises 1 10
      "[3, 4]" "[10]" 10]
  by (simp add: ex_simps ex_match_none_def ex_booking_raises_def)

text \<open>
  The counterexample to C4 as stated: picking 11 refers to no carrier. When the booking
  of child 2 succeeds the call returns, when every child of carrier 1 fails it raises the
  validation error; either way picking 11 then refers to carrier 1.
\<close>

theorem send_shipping_carrier_reference_counterexample:
  "destination_type (carriers ex_world 1) = Some Dest_multi
   \<and> carrier_id (pickings ex_world 11) = None
   \<and> fst (send_shipping ex_match_none ex_booking_ok [1] [11] ex_world) =
       Inr [\<lparr>exact_price = 99, tracking_number = Some ''TRACK''\<rparr>]
   \<and> carrier_id (pickings (snd (send_shipping ex_match_none ex_booking_ok [1] [11] ex_world)) 11) =
       Some 1
   \<and> fst (send_shipping ex_match_none ex_booking_raises [1] [11] ex_world) =
       Inl (ValidationError ''There is no matching delivery rule.'')
   \<and> carrier_id (pickings (snd (send_shipping ex_match_none ex_booking_raises [1] [11] ex_world)) 11) =
       Some 1
   \<and> carrier_id (pickings (snd (send_shipping ex_match_none ex_booking_raises [1] [11] ex_world)) 11) \<noteq>
       carrier_id (pickings ex_world 11)"
  by (simp add: ex_simps ex_match_none_def ex_booking_raises_def ex_booking_ok_def)

subsection \<open>A delegated booking that returns an empty result\<close>

text \<open>
  Claim C10, as stated, fails: \<^verbatim>\<open>break\<close> follows the delegated call whatever it returns,
  so an empty result ends the scan. The claim as amended: for a \<^verbatim>\<open>multi\<close> carrier and a
  picking, if the candidates before the non-fixed child \<open>s\<close> were tried without a result
  and the delegated booking of \<open>s\<close> returns an empty result without raising, the scan stops
  at \<open>s\<close>: the candidates after it are not tried, the carrier reference is set back to the
  parent, and \<^verbatim>\<open>send_shipping\<close> raises the validation error "There is no matching delivery
  rule." although the delegated booking succeeded.
\<close>

theorem send_shipping_falsy_result_stops:
  assumes "send_shipping_children m b c p pre w = (Inr None, w1)"
      and "delivery_type (carriers w1 s) \<noteq> ''fixed''"
      and "b [s] [p] (set_carrier_id p (Some s) w1) = (Inr [], w2)"
  shows "send_shipping_children m b c p (pre @ s # post) w =
           (Inr (Some []), set_carrier_id p (Some c) w2)
       \<and> (destination_type (carriers w c) = Some Dest_multi
           \<and> candidates_of w c p = pre @ s # post \<longrightarrow>
          send_shipping m b [c] (p # ps) w =
            (Inl (ValidationError ''There is no matching delivery rule.''),
             set_carrier_id p (Some c) w2))"
proof -
  have scan: "send_shipping_children m b c p (pre @ s # post) w =
           (Inr (Some []), set_carrier_id p (Some c) w2)"
    using assms by (simp add: send_shipping_children_append)
  have top: "send_shipping m b [c] (p # ps) w =
            (Inl (ValidationError ''There is no matching delivery rule.''),
             set_carrier_id p (Some c) w2)"
    if "destination_type (carriers w c) = Some Dest_multi"
      and "candidates_of w c p = pre @ s # post"
    using that scan by (simp add: send_shipping_multi)
  from scan top show ?thesis by blast
qed

theorem send_shipping_falsy_result_stops_witness:
  "send_shipping_children ex_match_fixed ex_booking_empty 1 10 [] ex_world = (Inr None, ex_world)
   \<and> delivery_type (carriers ex_world 2) \<noteq> ''fixed''
   \<and> ex_booking_empty [2] [10] (set_carrier_id 10 (Some 2) ex_world) =
       (Inr [], set_carrier_id 10 (Some 2) ex_world)
   \<and> destination_type (carriers ex_world 1) = Some Dest_multi
   \<and> candidates_of ex_world 1 10 = [] @ 2 # [3, 4]
   \<and> send_shipping ex_match_fixed ex_booking_empty [1] [10] ex_world =
       (Inl (ValidationError ''There is no matching delivery rule.''),
        set_carrier_id 10 (Some 1) (set_carrier_id 10 (Some 2) ex_world))"
  using send_shipping_falsy_result_stops [of ex_match_fixed ex_booking_empty 1 10 "[]" ex_world
      ex_world 2 "set_carrier_id 10 (Some 2) ex_world" "[3, 4]" "[]"]
  by (simp add: candidates_of_def ex_world_fields ex_carriers_def ex_pickings_def
      carriers_set_carrier_id ex_booking_empty_def)

text \<open>
  The counterexample to C10 as stated: with child 2 returning an empty result, the
  remaining candidates 3 and 4 would give a result (and do when child 2 raises instead),
  but the call raises the validation error.
\<close>

theorem send_shipping_falsy_result_counterexample:
  "destination_type (carriers ex_world 1) = Some Dest_multi
   \<and> candidates_of ex_world 1 10 = [2, 3, 4]
   \<and> delivery_type (carriers ex_world 2) \<noteq> ''fixed''
   \<and> fst (ex_booking_empty [2] [10] (set_carrier_id 10 (Some 2) ex_world)) = Inr []
   \<and> fst (send_shipping_children ex_match_fixed ex_booking_empty 1 10 [3, 4]
            (set_carrier_id 10 (Some 1) (set_carrier_id 10 (Some 2) ex_world))) =
       Inr (Some [\<lparr>exact_price = 5, tracking_number = None\<rparr>])
   \<and> fst (send_shipping ex_match_fixed ex_booking_raises [1] [10] ex_world) =
       Inr [\<lparr>exact_price = 5, tracking_number = None\<rparr>]
   \<and> fst (send_shipping ex_match_fixed ex_booking_empty [1] [10] ex_world) =
       Inl (ValidationError ''There is no matching delivery rule.'')"
  by (simp add: ex_simps ex_match_fixed_def ex_booking_empty_def ex_booking_raises_def)

end
